theory Spec2Isabelle
  imports Complex_Main "HOL-Library.Word"
begin

unbundle bit_operations_syntax

section \<open>The daily message generator (\<open>generateDailyMessage\<close>)\<close>

subsection \<open>JavaScript numbers and strings\<close>

text \<open>
  A JavaScript string is a sequence of UTF-16 code units; \<open>charCodeAt\<close> reads one as a
  number in 0..65535. Numbers are IEEE doubles. Every number the generator computes is an
  integer of magnitude below \<open>2 ^ 53\<close> (lemma \<open>hash_step_exact\<close> below), so doubles hold
  them exactly and they are modelled as \<open>int\<close>. The bitwise operators convert their
  operands with ToInt32 and return a signed 32-bit result: they are modelled on
  \<open>32 word\<close> and read back with \<open>sint\<close>.
\<close>

type_synonym code_unit = "16 word"
type_synonym js_string = "code_unit list"

definition toInt32 :: "int \<Rightarrow> int" where
  "toInt32 x = sint (word_of_int x :: 32 word)"

text \<open>\<open>x << n\<close>: ToInt32 of \<open>x\<close>, shifted left by \<open>n\<close> modulo 32, as a signed 32-bit value.\<close>

definition shl32 :: "int \<Rightarrow> nat \<Rightarrow> int" where
  "shl32 x n = sint (push_bit (n mod 32) (word_of_int x :: 32 word))"

text \<open>\<open>x & y\<close>: bitwise and of the ToInt32 of both operands.\<close>

definition band32 :: "int \<Rightarrow> int \<Rightarrow> int" where
  "band32 x y = sint ((word_of_int x :: 32 word) AND word_of_int y)"

text \<open>\<open>a % b\<close> on integers: the result has the sign of the dividend.\<close>

definition js_rem :: "int \<Rightarrow> int \<Rightarrow> int" where
  "js_rem a b = (if a < 0 then - ((- a) mod \<bar>b\<bar>) else a mod \<bar>b\<bar>)"

text \<open>
  \<open>xs[i]\<close>: the element, or \<open>undefined\<close> (here \<open>None\<close>) when the index is out of range.
\<close>

definition js_index :: "'a list \<Rightarrow> int \<Rightarrow> 'a option" where
  "js_index xs i = (if 0 \<le> i \<and> i < int (length xs) then Some (xs ! nat i) else None)"

text \<open>
  \<open>s.replace(pat, rep)\<close> with a string pattern replaces the first occurrence of \<open>pat\<close>
  only. (A \<open>$\<close> in the replacement would be interpreted by JavaScript; no entry of the
  pools contains one, see \<open>pools_no_dollar\<close>.)
\<close>

fun js_replace :: "string \<Rightarrow> string \<Rightarrow> string \<Rightarrow> string" where
  "js_replace [] pat rep = (if pat = [] then rep else [])"
| "js_replace (c # cs) pat rep =
     (if take (length pat) (c # cs) = pat then rep @ drop (length pat) (c # cs)
      else c # js_replace cs pat rep)"

text \<open>A replacement that is \<open>undefined\<close> is converted to the string \<open>undefined\<close>.\<close>

definition js_to_string :: "string option \<Rightarrow> string" where
  "js_to_string v = (case v of None \<Rightarrow> ''undefined'' | Some s \<Rightarrow> s)"

datatype js_error = TypeError

subsection \<open>The pools\<close>

definition templates :: "string list" where
  "templates =
    [''You {action} today. {encouragement}'',
     ''{encouragement} You've {verb} through another day.'',
     ''Rest now. {future_action}'',
     ''{accomplishment}, and that's enough.'',
     ''Your {quality} matters. Take care of yourself.'']"

definition actions :: "string list" where
  "actions =
    [''did enough'', ''showed up'', ''made it through'', ''gave your best'',
     ''tried your hardest'']"

definition encouragements :: "string list" where
  "encouragements =
    [''Well done'', ''Good work'', ''You've got this'', ''Keep going'', ''Be proud'']"

definition verbs :: "string list" where
  "verbs =
    [''made it'', ''pushed through'', ''powered through'', ''persevered'', ''carried on'']"

definition accomplishments :: "string list" where
  "accomplishments =
    [''You showed up today'', ''You tried your best'', ''You kept going'',
     ''You made progress'', ''You did your part'']"

definition qualities :: "string list" where
  "qualities = [''effort'', ''courage'', ''persistence'', ''strength'', ''resilience'']"

definition futureActions :: "string list" where
  "futureActions =
    [''Tomorrow is a fresh start.'', ''Tomorrow awaits your greatness.'',
     ''Tomorrow will be better.'', ''Tomorrow needs you.'',
     ''Tomorrow is a new opportunity.'']"

subsection \<open>The seed\<close>

text \<open>
  One round of the loop body:
  \<^verbatim>\<open>seed = ((seed << 5) - seed) + dateString.charCodeAt(i); seed = seed & seed;\<close>
\<close>

definition hash_step :: "int \<Rightarrow> int \<Rightarrow> int" where
  "hash_step seed c = (let seed1 = (shl32 seed 5 - seed) + c in band32 seed1 seed1)"

text \<open>The \<open>for\<close> loop over the code units, in order.\<close>

primrec hash_loop :: "int \<Rightarrow> js_string \<Rightarrow> int" where
  "hash_loop seed [] = seed"
| "hash_loop seed (c # cs) = hash_loop (hash_step seed (uint c)) cs"

definition seed_of :: "js_string \<Rightarrow> int" where
  "seed_of dateString = hash_loop 0 dateString"

subsection \<open>Selection and filling\<close>

definition templateIdx :: "int \<Rightarrow> int" where
  "templateIdx absv = js_rem absv (int (length templates))"

definition actionIdx :: "int \<Rightarrow> int" where
  "actionIdx absv = js_rem (absv + 1) (int (length actions))"

definition encouragementIdx :: "int \<Rightarrow> int" where
  "encouragementIdx absv = js_rem (absv + 2) (int (length encouragements))"

definition verbIdx :: "int \<Rightarrow> int" where
  "verbIdx absv = js_rem (absv + 3) (int (length verbs))"

definition accomplishmentIdx :: "int \<Rightarrow> int" where
  "accomplishmentIdx absv = js_rem (absv + 4) (int (length accomplishments))"

definition qualityIdx :: "int \<Rightarrow> int" where
  "qualityIdx absv = js_rem (absv + 5) (int (length qualities))"

definition futureIdx :: "int \<Rightarrow> int" where
  "futureIdx absv = js_rem (absv + 6) (int (length futureActions))"

text \<open>
  The second half of the function, from \<open>abs\<close> on (written \<open>absv\<close>). Reading \<open>templates[templateIdx]\<close> out
  of range would give \<open>undefined\<close>, and calling \<open>.replace\<close> on it throws a TypeError.
\<close>

definition fill_message :: "int \<Rightarrow> js_error + string" where
  "fill_message absv =
    (case js_index templates (templateIdx absv) of
       None \<Rightarrow> Inl TypeError
     | Some message \<Rightarrow>
         Inr (js_replace
               (js_replace
                 (js_replace
                   (js_replace
                     (js_replace
                       (js_replace message ''{action}''
                          (js_to_string (js_index actions (actionIdx absv))))
                       ''{encouragement}''
                       (js_to_string (js_index encouragements (encouragementIdx absv))))
                     ''{verb}'' (js_to_string (js_index verbs (verbIdx absv))))
                   ''{accomplishment}''
                   (js_to_string (js_index accomplishments (accomplishmentIdx absv))))
                 ''{quality}'' (js_to_string (js_index qualities (qualityIdx absv))))
               ''{future_action}''
               (js_to_string (js_index futureActions (futureIdx absv)))))"

text \<open>\<open>Math.abs\<close> works on doubles: the absolute value of \<open>- 2 ^ 31\<close> is \<open>2 ^ 31\<close>.\<close>

definition generateDailyMessage :: "js_string \<Rightarrow> js_error + string" where
  "generateDailyMessage dateString = fill_message \<bar>seed_of dateString\<bar>"

subsection \<open>The route \<open>GET /api/eod-message\<close>\<close>

text \<open>
  The handler reads the clock, renders it with \<open>toDateString\<close> (a built-in, taken as a
  parameter) and answers with the message for that string and the string itself.
\<close>

record eod_response =
  message :: "js_error + string"
  date :: js_string

definition eod_message_handler :: "(int \<Rightarrow> js_string) \<Rightarrow> int \<Rightarrow> eod_response" where
  "eod_message_handler toDateString now =
    (let date = toDateString now; message = generateDailyMessage date
     in \<lparr>message = message, date = date\<rparr>)"

subsection \<open>The specification's reading of the generator\<close>

text \<open>
  The specification's \<open>truncate32\<close>: wrap-around into the signed 32-bit range.
\<close>

definition truncate32 :: "int \<Rightarrow> int" where
  "truncate32 x = (x + 2 ^ 31) mod 2 ^ 32 - 2 ^ 31"

text \<open>
  The specification reads a template as text with named slots, each slot tied to one pool
  and one fixed offset. \<open>template_pieces\<close> is that reading of the five templates;
  \<open>template_pieces_text\<close> below shows that it spells out the source's strings.
\<close>

datatype slot = Action | Encouragement | Verb | Accomplishment | Quality | FutureAction

datatype piece = Lit string | Slot slot

fun placeholder :: "slot \<Rightarrow> string" where
  "placeholder Action = ''{action}''"
| "placeholder Encouragement = ''{encouragement}''"
| "placeholder Verb = ''{verb}''"
| "placeholder Accomplishment = ''{accomplishment}''"
| "placeholder Quality = ''{quality}''"
| "placeholder FutureAction = ''{future_action}''"

fun pool :: "slot \<Rightarrow> string list" where
  "pool Action = actions"
| "pool Encouragement = encouragements"
| "pool Verb = verbs"
| "pool Accomplishment = accomplishments"
| "pool Quality = qualities"
| "pool FutureAction = futureActions"

fun slot_offset :: "slot \<Rightarrow> int" where
  "slot_offset Action = 1"
| "slot_offset Encouragement = 2"
| "slot_offset Verb = 3"
| "slot_offset Accomplishment = 4"
| "slot_offset Quality = 5"
| "slot_offset FutureAction = 6"

definition template_pieces :: "piece list list" where
  "template_pieces =
    [[Lit ''You '', Slot Action, Lit '' today. '', Slot Encouragement],
     [Slot Encouragement, Lit '' You've '', Slot Verb, Lit '' through another day.''],
     [Lit ''Rest now. '', Slot FutureAction],
     [Slot Accomplishment, Lit '', and that's enough.''],
     [Lit ''Your '', Slot Quality, Lit '' matters. Take care of yourself.'']]"

fun piece_text :: "piece \<Rightarrow> string" where
  "piece_text (Lit s) = s"
| "piece_text (Slot k) = placeholder k"

fun piece_filled :: "int \<Rightarrow> piece \<Rightarrow> string" where
  "piece_filled absv (Lit s) = s"
| "piece_filled absv (Slot k) = pool k ! nat ((absv + slot_offset k) mod 5)"

definition spec_message :: "int \<Rightarrow> string" where
  "spec_message absv = concat (map (piece_filled absv) (template_pieces ! nat (absv mod 5)))"

section \<open>The timers\<close>

text \<open>
  Both timers live in React components. A step of the model is one event (a click, one
  firing of the 100 ms interval, a re-render caused by the parent) together with the
  render and the effects it causes, as React's batched updates run them: state setters
  called during the event take effect together, then the effects whose dependencies changed
  run in the order the component declares them. \<open>Date.now()\<close> is the integer \<open>now\<close>
  (milliseconds) of the event; the render and the effects of an event see the same \<open>now\<close>.
  A reference to a number or \<open>null\<close> is an \<open>int option\<close>; JavaScript's truth test on it
  (\<open>!ref.current\<close>, \<open>ref.current && \<dots>\<close>) fails for \<open>null\<close> and for 0.
\<close>

definition js_truthy :: "int option \<Rightarrow> bool" where
  "js_truthy v = (case v of None \<Rightarrow> False | Some t \<Rightarrow> t \<noteq> 0)"

text \<open>\<open>Math.round\<close> rounds to the nearest integer, halves upwards.\<close>

definition js_round :: "rat \<Rightarrow> int" where
  "js_round x = \<lfloor>x + 1 / 2\<rfloor>"

subsection \<open>The statistics (\<open>addFocusTime\<close>)\<close>

text \<open>
  \<open>focusTime\<close> is the component's state; \<open>remoteFocusTime\<close> is the field of the user's
  document in the store and \<open>localFocusTime\<close> the guest's entry in local storage
  (\<open>None\<close>: never written). \<open>signedIn\<close> says whether \<open>user\<close> is set; \<open>writeOk\<close> is whether
  the write succeeds (a failure is caught and logged).
\<close>

record stats =
  focusTime :: int
  remoteFocusTime :: "int option"
  localFocusTime :: "int option"

definition addFocusTime :: "bool \<Rightarrow> bool \<Rightarrow> int \<Rightarrow> stats \<Rightarrow> stats" where
  "addFocusTime signedIn writeOk minutes st =
    (if minutes \<le> 0 then st
     else
       let newFocusTime = focusTime st + minutes;
           st1 = st\<lparr>focusTime := newFocusTime\<rparr>
       in if \<not> writeOk then st1
          else if signedIn then st1\<lparr>remoteFocusTime := Some newFocusTime\<rparr>
          else st1\<lparr>localFocusTime := Some newFocusTime\<rparr>)"

subsection \<open>The Pomodoro timer of \<open>Home\<close>\<close>

datatype pomo_mode = Focus | Break

text \<open>
  \<open>pomoMode\<close>, \<open>pomoRunning\<close> and \<open>pomoRemaining\<close> are React state;
  \<open>pomoSessionStart\<close> and \<open>pomoSessionDuration\<close> are the two references;
  \<open>pomoInterval\<close> says whether \<open>pomoIntervalRef\<close> holds a live interval.
  \<open>calculatePomoRemaining\<close> is a \<open>useCallback\<close> with dependencies \<open>pomoRunning\<close> and
  \<open>pomoMode\<close>: the \<open>pomoRemaining\<close> it reads is the one of the render in which either last
  changed, kept in \<open>closureRemaining\<close>. \<open>focusReports\<close> lists the arguments of the calls of
  the completion callback (\<open>pomoOnFocusTimeRef.current\<close>, which is \<open>addFocusTime\<close>), oldest
  first.
\<close>

record pomodoro =
  pomoMode :: pomo_mode
  pomoRunning :: bool
  pomoRemaining :: int
  pomoSessionStart :: "int option"
  pomoSessionDuration :: int
  closureRemaining :: int
  pomoInterval :: bool
  focusReports :: "int list"

definition pomo_init :: pomodoro where
  "pomo_init =
    \<lparr>pomoMode = Focus, pomoRunning = False, pomoRemaining = 25 * 60,
     pomoSessionStart = None, pomoSessionDuration = 0, closureRemaining = 25 * 60,
     pomoInterval = False, focusReports = []\<rparr>"

text \<open>
  The updater given to \<open>setPomoMode\<close>: it flips the mode and, when the mode that ends is
  \<open>focus\<close>, calls the callback with 25.
\<close>

definition flip_mode :: "pomodoro \<Rightarrow> pomodoro" where
  "flip_mode st =
    (let currentMode = pomoMode st;
         nextMode = (if currentMode = Focus then Break else Focus);
         st1 = (if currentMode = Focus then st\<lparr>focusReports := focusReports st @ [25]\<rparr>
                else st)
     in st1\<lparr>pomoMode := nextMode\<rparr>)"

text \<open>
  \<open>calculatePomoRemaining\<close>: the value it returns and the state it leaves.
  \<open>Math.floor\<close> of the elapsed milliseconds over 1000 is \<open>div\<close>, which rounds down.
\<close>

definition calculatePomoRemaining :: "int \<Rightarrow> pomodoro \<Rightarrow> int \<times> pomodoro" where
  "calculatePomoRemaining now st =
    (case pomoSessionStart st of
       None \<Rightarrow> (closureRemaining st, st)
     | Some start \<Rightarrow>
         if \<not> pomoRunning st \<or> start = 0 then (closureRemaining st, st)
         else
           let elapsed = (now - start) div 1000;
               totalDuration = pomoSessionDuration st;
               remainingTime = max 0 (totalDuration - elapsed)
           in if remainingTime = 0 then
                let st1 = flip_mode st;
                    d = (if pomoMode st = Focus then 5 else 25) * 60
                in (d, st1\<lparr>pomoSessionStart := None, pomoSessionDuration := d\<rparr>)
              else (remainingTime, st))"

text \<open>
  The effect with dependencies \<open>pomoRunning\<close> and \<open>calculatePomoRemaining\<close>, run after a
  render in which \<open>pomoRunning\<close> or \<open>pomoMode\<close> changed: the callback of that render has
  captured its \<open>pomoRemaining\<close>, the cleanup of the previous run clears the interval, then
  the body arms the session and starts the interval, or disarms it.
\<close>

definition pomo_running_effect :: "int \<Rightarrow> pomodoro \<Rightarrow> pomodoro" where
  "pomo_running_effect now st =
    (let st0 = st\<lparr>closureRemaining := pomoRemaining st, pomoInterval := False\<rparr>
     in if pomoRunning st0 then
          (if \<not> js_truthy (pomoSessionStart st0)
           then st0\<lparr>pomoSessionStart := Some now, pomoSessionDuration := pomoRemaining st0,
                    pomoInterval := True\<rparr>
           else st0\<lparr>pomoInterval := True\<rparr>)
        else st0\<lparr>pomoSessionStart := None\<rparr>)"

text \<open>The effect with dependency \<open>pomoMode\<close>.\<close>

definition pomo_mode_effect :: "pomodoro \<Rightarrow> pomodoro" where
  "pomo_mode_effect st =
    st\<lparr>pomoRemaining := (if pomoMode st = Focus then 25 else 5) * 60,
       pomoSessionStart := None\<rparr>"

text \<open>The render after an event: \<open>old\<close> is the state of the previous render.\<close>

definition pomo_commit :: "int \<Rightarrow> pomodoro \<Rightarrow> pomodoro \<Rightarrow> pomodoro" where
  "pomo_commit now old st =
    (let st1 = (if pomoRunning st \<noteq> pomoRunning old \<or> pomoMode st \<noteq> pomoMode old
                then pomo_running_effect now st else st)
     in if pomoMode st \<noteq> pomoMode old then pomo_mode_effect st1 else st1)"

text \<open>The interval's callback; it fires only while the interval is live.\<close>

definition pomo_tick :: "int \<Rightarrow> pomodoro \<Rightarrow> pomodoro" where
  "pomo_tick now st =
    (if \<not> pomoInterval st then st
     else
       let (newRemaining, st1) = calculatePomoRemaining now st
       in pomo_commit now st (st1\<lparr>pomoRemaining := newRemaining\<rparr>))"

text \<open>The start/pause button calls \<open>setPomoRunning\<close>.\<close>

definition setPomoRunning :: "bool \<Rightarrow> int \<Rightarrow> pomodoro \<Rightarrow> pomodoro" where
  "setPomoRunning b now st = pomo_commit now st (st\<lparr>pomoRunning := b\<rparr>)"

definition resetPomodoro :: "pomo_mode \<Rightarrow> int \<Rightarrow> pomodoro \<Rightarrow> pomodoro" where
  "resetPomodoro nextMode now st =
    pomo_commit now st
      (st\<lparr>pomoRunning := False, pomoMode := nextMode,
          pomoRemaining := (if nextMode = Focus then 25 else 5) * 60,
          pomoSessionStart := None\<rparr>)"

datatype pomo_event = PomoSetRunning bool | PomoTick | PomoReset pomo_mode

fun pomo_step :: "int \<times> pomo_event \<Rightarrow> pomodoro \<Rightarrow> pomodoro" where
  "pomo_step (now, PomoSetRunning b) st = setPomoRunning b now st"
| "pomo_step (now, PomoTick) st = pomo_tick now st"
| "pomo_step (now, PomoReset m) st = resetPomodoro m now st"

definition pomo_run :: "(int \<times> pomo_event) list \<Rightarrow> pomodoro \<Rightarrow> pomodoro" where
  "pomo_run evs st = fold pomo_step evs st"

subsection \<open>The full-screen countdown (\<open>useFullscreenTimer\<close>)\<close>

text \<open>
  \<open>fsSeconds\<close> and \<open>fsRunning\<close> are React state, \<open>fsLastTick\<close> and \<open>fsSessionStartTime\<close>
  the two references, \<open>fsInterval\<close> whether the interval is live, \<open>fsCallback\<close> whether
  \<open>onFocusTime\<close> was given, \<open>fsReports\<close> the arguments of its calls, oldest first.
  \<open>fsSeconds\<close> is a double in the source; the model computes with exact rationals, so the
  rounding of \<open>prev - delta\<close> and of the division by 1000 is left out.
\<close>

record fs_timer =
  fsSeconds :: rat
  fsRunning :: bool
  fsLastTick :: "int option"
  fsSessionStartTime :: "int option"
  fsInterval :: bool
  fsCallback :: bool
  fsReports :: "int list"

definition fs_init :: fs_timer where
  "fs_init =
    \<lparr>fsSeconds = 10 * 60, fsRunning = False, fsLastTick = None, fsSessionStartTime = None,
     fsInterval = False, fsCallback = True, fsReports = []\<rparr>"

text \<open>
  The effect with dependencies \<open>running\<close> and \<open>onFocusTime\<close>: it runs after a render in
  which \<open>running\<close> changed, and after a render in which the parent passed another
  \<open>onFocusTime\<close>.
\<close>

definition fs_report_effect :: "int \<Rightarrow> fs_timer \<Rightarrow> fs_timer" where
  "fs_report_effect now st =
    (if fsRunning st then st\<lparr>fsSessionStartTime := Some now, fsLastTick := Some now\<rparr>
     else
       case fsSessionStartTime st of
         None \<Rightarrow> st
       | Some start \<Rightarrow>
           if start \<noteq> 0 \<and> fsCallback st then
             let sessionDurationMs = now - start;
                 sessionMinutes = js_round (of_int sessionDurationMs / (1000 * 60));
                 st1 = (if sessionMinutes > 0
                        then st\<lparr>fsReports := fsReports st @ [sessionMinutes]\<rparr> else st)
             in st1\<lparr>fsSessionStartTime := None\<rparr>
           else st)"

text \<open>
  The effect with dependency \<open>running\<close>: the cleanup of the previous run clears the
  interval; the body forgets the last tick, or starts a new interval.
\<close>

definition fs_interval_effect :: "fs_timer \<Rightarrow> fs_timer" where
  "fs_interval_effect st =
    (if \<not> fsRunning st then st\<lparr>fsLastTick := None, fsInterval := False\<rparr>
     else st\<lparr>fsInterval := True\<rparr>)"

text \<open>\<open>setRunning\<close>: a render and both effects, unless the value is the one already held.\<close>

definition fs_setRunning :: "bool \<Rightarrow> int \<Rightarrow> fs_timer \<Rightarrow> fs_timer" where
  "fs_setRunning b now st =
    (if fsRunning st = b then st
     else fs_interval_effect (fs_report_effect now (st\<lparr>fsRunning := b\<rparr>)))"

text \<open>
  \<open>setSeconds\<close> with an updater: a render unless the value is unchanged, then the effect
  with dependency \<open>seconds\<close>, which stops the timer at 0.
\<close>

definition fs_setSeconds :: "(rat \<Rightarrow> rat) \<Rightarrow> int \<Rightarrow> fs_timer \<Rightarrow> fs_timer" where
  "fs_setSeconds f now st =
    (let s = f (fsSeconds st)
     in if s = fsSeconds st then st
        else
          let st1 = st\<lparr>fsSeconds := s\<rparr>
          in if fsSeconds st1 = 0 then fs_setRunning False now st1 else st1)"

text \<open>The interval's callback.\<close>

definition fs_tick :: "int \<Rightarrow> fs_timer \<Rightarrow> fs_timer" where
  "fs_tick now st =
    (if \<not> fsInterval st then st
     else
       let last = (case fsLastTick st of None \<Rightarrow> now | Some l \<Rightarrow> l);
           st1 = st\<lparr>fsLastTick := Some now\<rparr>;
           delta = of_int (now - last) / 1000
       in if delta \<le> 0 then st1
          else fs_setSeconds (\<lambda>prev. let next = prev - delta in if next \<le> 0 then 0 else next)
                 now st1)"

text \<open>The two adjust buttons of \<open>FullscreenTimerCard\<close>.\<close>

definition fs_minus :: "int \<Rightarrow> fs_timer \<Rightarrow> fs_timer" where
  "fs_minus now st = fs_setSeconds (\<lambda>s. max 0 (s - 60)) now st"

definition fs_plus :: "int \<Rightarrow> fs_timer \<Rightarrow> fs_timer" where
  "fs_plus now st = fs_setSeconds (\<lambda>s. s + 60) now st"

text \<open>
  A render of \<open>Home\<close> gives \<open>FullscreenTimerCard\<close> a new \<open>addFocusTime\<close> closure as
  \<open>onFocusTime\<close> (it is a plain function declared in the body of \<open>Home\<close>), so the first
  effect runs again. \<open>Home\<close> renders at least once a second: its clock calls
  \<open>setCurrentTime(new Date())\<close> on a 1000 ms interval.
\<close>

definition fs_parent_render :: "int \<Rightarrow> fs_timer \<Rightarrow> fs_timer" where
  "fs_parent_render now st = fs_report_effect now st"

datatype fs_event = FsSetRunning bool | FsTick | FsMinus | FsPlus | FsParentRender

fun fs_step :: "int \<times> fs_event \<Rightarrow> fs_timer \<Rightarrow> fs_timer" where
  "fs_step (now, FsSetRunning b) st = fs_setRunning b now st"
| "fs_step (now, FsTick) st = fs_tick now st"
| "fs_step (now, FsMinus) st = fs_minus now st"
| "fs_step (now, FsPlus) st = fs_plus now st"
| "fs_step (now, FsParentRender) st = fs_parent_render now st"

definition fs_run :: "(int \<times> fs_event) list \<Rightarrow> fs_timer \<Rightarrow> fs_timer" where
  "fs_run evs st = fold fs_step evs st"

subsection \<open>Run, pause, resume cycles\<close>















section \<open>Properties of the generator\<close>

subsection \<open>The bitwise operators wrap into the signed 32-bit range\<close>

lemma toInt32_truncate32: "toInt32 x = truncate32 x"
  unfolding toInt32_def truncate32_def
  by (simp add: sint_sbintrunc' signed_take_bit_eq_take_bit_shift take_bit_eq_mod)

lemma band32_same: "band32 x x = truncate32 x"
  using toInt32_truncate32 [of x] by (simp add: band32_def toInt32_def)

lemma shl32_5: "shl32 x 5 = truncate32 (x * 32)"
proof -
  have "push_bit 5 (word_of_int x :: 32 word) = word_of_int (x * 32)"
    by (simp add: push_bit_eq_mult)
  then show ?thesis
    using toInt32_truncate32 [of "x * 32"] by (simp add: shl32_def toInt32_def)
qed

lemma truncate32_cong: "(a - b) mod 2 ^ 32 = 0 \<Longrightarrow> truncate32 a = truncate32 b"
  unfolding truncate32_def
  by (metis add_diff_cancel_right mod_eq_dvd_iff mod_0_imp_dvd)

lemma truncate32_range: "- (2 ^ 31) \<le> truncate32 x \<and> truncate32 x < 2 ^ 31"
  unfolding truncate32_def
  using pos_mod_bound [of "2 ^ 32" "x + 2 ^ 31"] pos_mod_sign [of "2 ^ 32" "x + 2 ^ 31"]
  by simp

lemma truncate32_id: "- (2 ^ 31) \<le> x \<Longrightarrow> x < 2 ^ 31 \<Longrightarrow> truncate32 x = x"
  unfolding truncate32_def by simp

lemma hash_step_eq: "hash_step seed c = truncate32 (seed * 31 + c)"
proof -
  have "truncate32 (truncate32 (seed * 32) - seed + c) = truncate32 (seed * 31 + c)"
  proof (rule truncate32_cong)
    have "(truncate32 (seed * 32) - seed + c - (seed * 31 + c)) = (seed * 32 + 2 ^ 31) mod 2 ^ 32 - (seed * 32 + 2^31)"
      by (simp add: truncate32_def)
    also have "\<dots> mod 2 ^ 32 = 0"
      by (metis cancel_comm_monoid_add_class.diff_cancel mod_0 mod_diff_left_eq) 
    finally show "(truncate32 (seed * 32) - seed + c - (seed * 31 + c)) mod 2 ^ 32 = 0" .
  qed
  then show ?thesis
    by (simp add: hash_step_def Let_def band32_same shl32_5)
qed

text \<open>
  The value the loop body holds before \<open>seed & seed\<close> is far below \<open>2 ^ 53\<close>, so the
  double arithmetic of the source is exact.
\<close>

lemma hash_step_exact:
  assumes "- (2 ^ 31) \<le> seed" "seed < 2 ^ 31" "0 \<le> c" "c < 2 ^ 16"
  shows "\<bar>(shl32 seed 5 - seed) + c\<bar> < 2 ^ 53"
  using assms truncate32_range [of "seed * 32"] unfolding shl32_5 by (simp add: abs_less_iff)

lemma hash_loop_snoc: "hash_loop seed (cs @ [c]) = hash_step (hash_loop seed cs) (uint c)"
  by (induction cs arbitrary: seed) simp_all

lemma hash_loop_range:
  "- (2 ^ 31) \<le> seed \<Longrightarrow> seed < 2 ^ 31 \<Longrightarrow>
   - (2 ^ 31) \<le> hash_loop seed cs \<and> hash_loop seed cs < 2 ^ 31"
proof (induction cs arbitrary: seed)
  case Nil
  then show ?case by simp
next
  case (Cons c cs)
  show ?case
    using Cons.IH [of "hash_step seed (uint c)"] truncate32_range [of "seed * 31 + uint c"]
    by (simp add: hash_step_eq)
qed

text \<open>
  C1: the seed is computed by the recurrence \<open>seed\<^sub>0 = 0\<close>,
  \<open>seed\<^sub>i\<^sub>+\<^sub>1 = truncate32 (seed\<^sub>i * 31 + c\<^sub>i)\<close> over the code units of the input in
  order: the loop body \<open>seed = ((seed << 5) - seed) + c; seed = seed & seed\<close> equals
  \<open>truncate32 (seed * 31 + c)\<close> for every seed and every character code, the seed of the
  empty string is 0, and appending a code unit applies one more step.
\<close>

theorem seed_recurrence:
  "(\<forall>seed c. hash_step seed c = truncate32 (seed * 31 + c)) \<and>
   seed_of [] = 0 \<and>
   (\<forall>s c. seed_of (s @ [c]) = truncate32 (seed_of s * 31 + uint c))"
  by (simp add: hash_step_eq seed_of_def hash_loop_snoc)

subsection \<open>Selection and filling\<close>

lemma js_rem_nonneg: "0 \<le> a \<Longrightarrow> 0 < b \<Longrightarrow> js_rem a b = a mod b"
  by (simp add: js_rem_def)

lemma mod5_shift: "(a::int) mod 5 = r \<Longrightarrow> (a + k) mod 5 = (r + k) mod 5"
  by (metis mod_add_left_eq)

lemma len_pools:
  "length templates = 5" "length actions = 5" "length encouragements = 5" "length verbs = 5"
  "length accomplishments = 5" "length qualities = 5" "length futureActions = 5"
  by (simp_all add: templates_def actions_def encouragements_def verbs_def
      accomplishments_def qualities_def futureActions_def)

lemma idx_eqs:
  assumes "0 \<le> a"
  shows "templateIdx a = a mod 5" "actionIdx a = (a + 1) mod 5"
    "encouragementIdx a = (a + 2) mod 5" "verbIdx a = (a + 3) mod 5"
    "accomplishmentIdx a = (a + 4) mod 5" "qualityIdx a = (a + 5) mod 5"
    "futureIdx a = (a + 6) mod 5"
  using assms
  by (simp_all add: templateIdx_def actionIdx_def encouragementIdx_def verbIdx_def
      accomplishmentIdx_def qualityIdx_def futureIdx_def len_pools js_rem_nonneg)

lemma fill_message_0:
  assumes "0 \<le> a" "a mod 5 = 0"
  shows "fill_message a = Inr ''You showed up today. You've got this''"
    and "spec_message a = ''You showed up today. You've got this''"
  using assms mod5_shift [OF assms(2)]
  by (simp_all add: fill_message_def idx_eqs js_index_def len_pools js_to_string_def
      spec_message_def template_pieces_def,
      simp_all add: templates_def actions_def encouragements_def)


lemma fill_message_1:
  assumes "0 \<le> a" "a mod 5 = 1"
  shows "fill_message a = Inr ''Keep going You've carried on through another day.''"
    and "spec_message a = ''Keep going You've carried on through another day.''"
  using assms mod5_shift [OF assms(2)]
  by (simp_all add: fill_message_def idx_eqs js_index_def len_pools js_to_string_def
      spec_message_def template_pieces_def,
      simp_all add: templates_def encouragements_def verbs_def)

lemma fill_message_2:
  assumes "0 \<le> a" "a mod 5 = 2"
  shows "fill_message a = Inr ''Rest now. Tomorrow needs you.''"
    and "spec_message a = ''Rest now. Tomorrow needs you.''"
  using assms mod5_shift [OF assms(2)]
  by (simp_all add: fill_message_def idx_eqs js_index_def len_pools js_to_string_def
      spec_message_def template_pieces_def,
      simp_all add: templates_def futureActions_def)

lemma fill_message_3:
  assumes "0 \<le> a" "a mod 5 = 3"
  shows "fill_message a = Inr ''You kept going, and that's enough.''"
    and "spec_message a = ''You kept going, and that's enough.''"
  using assms mod5_shift [OF assms(2)]
  by (simp_all add: fill_message_def idx_eqs js_index_def len_pools js_to_string_def
      spec_message_def template_pieces_def,
      simp_all add: templates_def accomplishments_def)

lemma fill_message_4:
  assumes "0 \<le> a" "a mod 5 = 4"
  shows "fill_message a = Inr ''Your resilience matters. Take care of yourself.''"
    and "spec_message a = ''Your resilience matters. Take care of yourself.''"
  using assms mod5_shift [OF assms(2)]
  by (simp_all add: fill_message_def idx_eqs js_index_def len_pools js_to_string_def
      spec_message_def template_pieces_def,
      simp_all add: templates_def qualities_def)

lemma mod5_cases:
  fixes a :: int
  shows "a mod 5 = 0 \<or> a mod 5 = 1 \<or> a mod 5 = 2 \<or> a mod 5 = 3 \<or> a mod 5 = 4"
proof -
  have "0 \<le> a mod 5" "a mod 5 < 5" by simp_all
  then show ?thesis by arith
qed

lemma fill_message_spec: "0 \<le> a \<Longrightarrow> fill_message a = Inr (spec_message a)"
  using mod5_cases [of a]
  by (elim disjE)
    (simp_all add: fill_message_0 fill_message_1 fill_message_2 fill_message_3 fill_message_4)

text \<open>The structured templates spell out the strings of the source.\<close>

lemma template_pieces_text: "map (\<lambda>ps. concat (map piece_text ps)) template_pieces = templates"
  by (simp add: template_pieces_def templates_def)

lemma pools_no_dollar:
  "\<forall>k. \<forall>s \<in> set (pool k). CHR ''$'' \<notin> set s"
proof
  fix k show "\<forall>s \<in> set (pool k). CHR ''$'' \<notin> set s"
    by (cases k) (simp_all add: actions_def encouragements_def verbs_def
      accomplishments_def qualities_def futureActions_def)
qed


theorem seed_recurrence_witness:
  "seed_of [0x41, 0x61] = 2112 \<and>    seed_of [0x54, 0x75, 0x65, 0x20, 0x4E, 0x6F, 0x76, 0x20, 0x30, 0x33, 0x20, 0x32, 0x30,
     0x32, 0x36] = - 1484377512"
  using seed_recurrence by (simp add: seed_of_def truncate32_def)

lemma generate_spec: "generateDailyMessage s = Inr (spec_message \<bar>seed_of s\<bar>)"
  by (simp add: generateDailyMessage_def fill_message_spec)

text \<open>
  C2: with \<open>abs\<close> the absolute value of the seed, the template index is \<open>abs mod 5\<close> and
  the slot indices are \<open>(abs + k) mod 5\<close> with \<open>k\<close> = 1 for action, 2 for encouragement,
  3 for verb, 4 for accomplishment, 5 for quality and 6 for futureAction; the message
  returned is the chosen template with the chosen pool entries in place of its
  placeholders. For an input whose seed is 0 the indices are 0, 1, 2, 3, 4, 0, 1.
\<close>

theorem selection_by_formula:
  "templateIdx \<bar>seed_of s\<bar> = \<bar>seed_of s\<bar> mod 5 \<and>
   actionIdx \<bar>seed_of s\<bar> = (\<bar>seed_of s\<bar> + 1) mod 5 \<and>
   encouragementIdx \<bar>seed_of s\<bar> = (\<bar>seed_of s\<bar> + 2) mod 5 \<and>
   verbIdx \<bar>seed_of s\<bar> = (\<bar>seed_of s\<bar> + 3) mod 5 \<and>
   accomplishmentIdx \<bar>seed_of s\<bar> = (\<bar>seed_of s\<bar> + 4) mod 5 \<and>
   qualityIdx \<bar>seed_of s\<bar> = (\<bar>seed_of s\<bar> + 5) mod 5 \<and>
   futureIdx \<bar>seed_of s\<bar> = (\<bar>seed_of s\<bar> + 6) mod 5 \<and>
   generateDailyMessage s = Inr (spec_message \<bar>seed_of s\<bar>) \<and>
   (seed_of s = 0 \<longrightarrow>
      templateIdx \<bar>seed_of s\<bar> = 0 \<and> actionIdx \<bar>seed_of s\<bar> = 1 \<and>
      encouragementIdx \<bar>seed_of s\<bar> = 2 \<and> verbIdx \<bar>seed_of s\<bar> = 3 \<and>
      accomplishmentIdx \<bar>seed_of s\<bar> = 4 \<and> qualityIdx \<bar>seed_of s\<bar> = 0 \<and>
      futureIdx \<bar>seed_of s\<bar> = 1 \<and>
      generateDailyMessage s = Inr ''You showed up today. You've got this'')"
proof -
  have idx: "templateIdx \<bar>seed_of s\<bar> = \<bar>seed_of s\<bar> mod 5"
    "actionIdx \<bar>seed_of s\<bar> = (\<bar>seed_of s\<bar> + 1) mod 5"
    "encouragementIdx \<bar>seed_of s\<bar> = (\<bar>seed_of s\<bar> + 2) mod 5"
    "verbIdx \<bar>seed_of s\<bar> = (\<bar>seed_of s\<bar> + 3) mod 5"
    "accomplishmentIdx \<bar>seed_of s\<bar> = (\<bar>seed_of s\<bar> + 4) mod 5"
    "qualityIdx \<bar>seed_of s\<bar> = (\<bar>seed_of s\<bar> + 5) mod 5"
    "futureIdx \<bar>seed_of s\<bar> = (\<bar>seed_of s\<bar> + 6) mod 5"
    by (simp_all add: idx_eqs)
  have zero: "templateIdx \<bar>seed_of s\<bar> = 0 \<and> actionIdx \<bar>seed_of s\<bar> = 1 \<and>
      encouragementIdx \<bar>seed_of s\<bar> = 2 \<and> verbIdx \<bar>seed_of s\<bar> = 3 \<and>
      accomplishmentIdx \<bar>seed_of s\<bar> = 4 \<and> qualityIdx \<bar>seed_of s\<bar> = 0 \<and>
      futureIdx \<bar>seed_of s\<bar> = 1 \<and>
      generateDailyMessage s = Inr ''You showed up today. You've got this''"
    if "seed_of s = 0"
    using that idx_eqs [of 0] by (simp add: generateDailyMessage_def fill_message_0)
  show ?thesis
    using idx zero generate_spec [of s] by blast
qed

theorem selection_by_formula_witness:
  "seed_of [0] = 0 \<and> templateIdx \<bar>seed_of [0]\<bar> = 0 \<and> actionIdx \<bar>seed_of [0]\<bar> = 1 \<and>
   futureIdx \<bar>seed_of [0]\<bar> = 1 \<and>
   generateDailyMessage [0] = Inr ''You showed up today. You've got this''"
proof -
  have h: "seed_of [0] = 0"
    by (simp add: seed_of_def hash_step_eq truncate32_def)
  show ?thesis using h selection_by_formula [of "[0]"] by blast
qed

text \<open>
  C3: the generator is total. For every string it returns a message and raises no error,
  \<open>abs\<close> is not negative and every index it uses is within its pool; for the empty string
  the seed is 0 and the result is the message for seed 0.
\<close>

theorem generator_total:
  "(\<exists>msg. generateDailyMessage s = Inr msg) \<and>
   0 \<le> \<bar>seed_of s\<bar> \<and>
   0 \<le> templateIdx \<bar>seed_of s\<bar> \<and> templateIdx \<bar>seed_of s\<bar> < int (length templates) \<and>
   0 \<le> actionIdx \<bar>seed_of s\<bar> \<and> actionIdx \<bar>seed_of s\<bar> < int (length actions) \<and>
   0 \<le> encouragementIdx \<bar>seed_of s\<bar> \<and>
   encouragementIdx \<bar>seed_of s\<bar> < int (length encouragements) \<and>
   0 \<le> verbIdx \<bar>seed_of s\<bar> \<and> verbIdx \<bar>seed_of s\<bar> < int (length verbs) \<and>
   0 \<le> accomplishmentIdx \<bar>seed_of s\<bar> \<and>
   accomplishmentIdx \<bar>seed_of s\<bar> < int (length accomplishments) \<and>
   0 \<le> qualityIdx \<bar>seed_of s\<bar> \<and> qualityIdx \<bar>seed_of s\<bar> < int (length qualities) \<and>
   0 \<le> futureIdx \<bar>seed_of s\<bar> \<and> futureIdx \<bar>seed_of s\<bar> < int (length futureActions) \<and>
   seed_of [] = 0 \<and>
   generateDailyMessage [] = fill_message 0 \<and>
   generateDailyMessage [] = Inr ''You showed up today. You've got this''"
proof -
  have "generateDailyMessage [] = Inr ''You showed up today. You've got this''"
    by (simp add: generateDailyMessage_def seed_of_def fill_message_0)
  moreover have "generateDailyMessage [] = fill_message 0"
    by (simp add: generateDailyMessage_def seed_of_def)
  ultimately show ?thesis
    using generate_spec [of s] by (simp add: idx_eqs len_pools seed_of_def)
qed

theorem generator_total_witness:
  "(\<exists>msg. generateDailyMessage [0x54, 0x75, 0x65] = Inr msg) \<and>
   templateIdx \<bar>seed_of [0x54, 0x75, 0x65]\<bar> < 5"
  using generator_total [of "[0x54, 0x75, 0x65]"] by (simp add: len_pools)

text \<open>
  C4: the generator is a function of its input string only. Equal strings give equal seeds
  and equal messages, the message depends on the string through the seed alone, and two
  requests served at times that render to the same date string get the same response.
\<close>

theorem generator_deterministic:
  "(s = t \<longrightarrow> seed_of s = seed_of t \<and> generateDailyMessage s = generateDailyMessage t) \<and>
   (seed_of s = seed_of t \<longrightarrow> generateDailyMessage s = generateDailyMessage t) \<and>
   (toDateString t1 = toDateString t2 \<longrightarrow>
      eod_message_handler toDateString t1 = eod_message_handler toDateString t2)"
  by (simp add: generateDailyMessage_def eod_message_handler_def)

theorem generator_deterministic_witness:
  "seed_of [0x41, 0x61] = seed_of [0x42, 0x42] \<and>
   generateDailyMessage [0x41, 0x61] = generateDailyMessage [0x42, 0x42] \<and>
   eod_message_handler (\<lambda>t. [word_of_int (t div 86400000)]) 5 =
   eod_message_handler (\<lambda>t. [word_of_int (t div 86400000)]) 86399999"
proof -
  have h: "seed_of [0x41, 0x61] = seed_of [0x42, 0x42]"
    by (simp add: seed_of_def hash_step_eq truncate32_def)
  have d: "(\<lambda>t::int. [word_of_int (t div 86400000) :: code_unit]) 5 =
           (\<lambda>t. [word_of_int (t div 86400000)]) 86399999"
    by simp
  show ?thesis
    using h d generator_deterministic [of "[0x41, 0x61]" "[0x42, 0x42]"
        "\<lambda>t. [word_of_int (t div 86400000)]" 5 86399999]
    by simp
qed

section \<open>Properties of the timers\<close>

subsection \<open>The statistics\<close>

lemma addFocusTime_mono: "focusTime st \<le> focusTime (addFocusTime u ok m st)"
  by (simp add: addFocusTime_def Let_def)

lemma addFocusTime_fold_mono:
  "focusTime st \<le> focusTime (fold (\<lambda>(u, ok, m). addFocusTime u ok m) calls st)"
proof (induction calls arbitrary: st)
  case Nil
  show ?case by simp
next
  case (Cons c calls)
  obtain u ok m where c: "c = (u, ok, m)" by (cases c)
  have "focusTime st \<le> focusTime (addFocusTime u ok m st)" by (rule addFocusTime_mono)
  also have "\<dots> \<le> focusTime (fold (\<lambda>(u, ok, m). addFocusTime u ok m) calls (addFocusTime u ok m st))"
    by (rule Cons.IH)
  finally show ?case by (simp add: c)
qed

text \<open>A stop less than 30 seconds after the session start rounds to 0 minutes.\<close>

lemma js_round_small: "0 \<le> d \<Longrightarrow> d < 30000 \<Longrightarrow> js_round (of_int d / (1000 * 60)) = 0"
proof -
  assume d: "0 \<le> d" "d < 30000"
  have "(of_int d :: rat) < 30000" using d(2) by (metis of_int_less_iff of_int_numeral)
  moreover have "(0::rat) \<le> of_int d" using d(1) by simp
  ultimately have "0 \<le> of_int d / (1000 * 60) + (1 / 2 :: rat)" "of_int d / (1000 * 60) + (1 / 2 :: rat) < 1"
    by (simp_all add: field_simps)
  then show ?thesis unfolding js_round_def by (simp add: floor_eq_iff)
qed

lemma fs_stop_reports:
  assumes "fsRunning t" "fsSessionStartTime t = Some start"
  shows "fsReports (fs_setRunning False now t) =
    (if start \<noteq> 0 \<and> fsCallback t \<and> 0 < js_round (of_int (now - start) / (1000 * 60))
     then fsReports t @ [js_round (of_int (now - start) / (1000 * 60))] else fsReports t)"
  using assms
  by (simp add: fs_setRunning_def fs_report_effect_def fs_interval_effect_def Let_def)

text \<open>
  C10: the cumulative focus time never decreases. A call \<open>addFocusTime(m)\<close> with
  \<open>m \<le> 0\<close> returns at once and leaves the state and the persisted values as they were;
  with \<open>m > 0\<close> the new \<open>focusTime\<close> is the old one plus \<open>m\<close>; no sequence of calls
  lowers it. A full-screen run whose elapsed time rounds to 0 minutes (in particular one
  shorter than 30 seconds) calls the callback not at all.
\<close>

theorem focus_time_never_decreases:
  "(minutes \<le> 0 \<longrightarrow> addFocusTime signedIn writeOk minutes st = st) \<and>
   (0 < minutes \<longrightarrow>
      focusTime (addFocusTime signedIn writeOk minutes st) = focusTime st + minutes) \<and>
   focusTime st \<le> focusTime (addFocusTime signedIn writeOk minutes st) \<and>
   focusTime st \<le> focusTime (fold (\<lambda>(u, ok, m). addFocusTime u ok m) calls st) \<and>
   (fsRunning t \<and> fsSessionStartTime t = Some start \<and>
    js_round (of_int (now - start) / (1000 * 60)) = 0 \<longrightarrow>
      fsReports (fs_setRunning False now t) = fsReports t) \<and>
   (fsRunning t \<and> fsSessionStartTime t = Some start \<and> start \<le> now \<and> now - start < 30000 \<longrightarrow>
      fsReports (fs_setRunning False now t) = fsReports t)"
proof -
  have a: "minutes \<le> 0 \<longrightarrow> addFocusTime signedIn writeOk minutes st = st"
    by (simp add: addFocusTime_def)
  have b: "0 < minutes \<longrightarrow>
      focusTime (addFocusTime signedIn writeOk minutes st) = focusTime st + minutes"
    by (simp add: addFocusTime_def Let_def)
  have c: "fsReports (fs_setRunning False now t) = fsReports t"
    if "fsRunning t" "fsSessionStartTime t = Some start"
      "js_round (of_int (now - start) / (1000 * 60)) = 0"
    using that by (simp add: fs_stop_reports)
  have d: "fsReports (fs_setRunning False now t) = fsReports t"
    if "fsRunning t" "fsSessionStartTime t = Some start" "start \<le> now" "now - start < 30000"
    using that js_round_small [of "now - start"] by (simp add: fs_stop_reports)
  show ?thesis
    using a b c d addFocusTime_mono addFocusTime_fold_mono by blast
qed

theorem focus_time_never_decreases_witness:
  "addFocusTime True True 0
     \<lparr>focusTime = 40, remoteFocusTime = Some 40, localFocusTime = None\<rparr> =
     \<lparr>focusTime = 40, remoteFocusTime = Some 40, localFocusTime = None\<rparr> \<and>
   focusTime (addFocusTime True True 25
     \<lparr>focusTime = 40, remoteFocusTime = Some 40, localFocusTime = None\<rparr>) = 65 \<and>
   fsRunning (fs_setRunning True 1000000 fs_init) \<and>
   fsSessionStartTime (fs_setRunning True 1000000 fs_init) = Some 1000000 \<and>
   fsReports (fs_setRunning False 1029999 (fs_setRunning True 1000000 fs_init)) = []"
proof -
  have r: "fsRunning (fs_setRunning True 1000000 fs_init)"
    and s: "fsSessionStartTime (fs_setRunning True 1000000 fs_init) = Some 1000000"
    and e: "fsReports (fs_setRunning True 1000000 fs_init) = []"
    by (simp_all add: fs_setRunning_def fs_init_def fs_report_effect_def fs_interval_effect_def)
  show ?thesis
    using r s e
      focus_time_never_decreases [of 0 True True
        "\<lparr>focusTime = 40, remoteFocusTime = Some 40, localFocusTime = None\<rparr>"
        "[]" "fs_setRunning True 1000000 fs_init" 1000000 1029999]
      focus_time_never_decreases [of 25 True True
        "\<lparr>focusTime = 40, remoteFocusTime = Some 40, localFocusTime = None\<rparr>"
        "[]" "fs_setRunning True 1000000 fs_init" 1000000 1029999]
    by simp
qed

subsection \<open>Completion of a Pomodoro interval\<close>

text \<open>
  While the session start is \<open>null\<close> a tick only copies the remaining time of the closure:
  it flips no mode and reports nothing.
\<close>

lemma pomo_tick_disarmed:
  assumes "pomoSessionStart st = None"
  shows "pomo_tick now st = (if pomoInterval st then st\<lparr>pomoRemaining := closureRemaining st\<rparr> else st)"
  using assms by (simp add: pomo_tick_def calculatePomoRemaining_def pomo_commit_def)

lemma pomo_ticks_disarmed:
  assumes "pomoSessionStart st = None"
  shows "focusReports (fold pomo_tick ts st) = focusReports st \<and>
         pomoMode (fold pomo_tick ts st) = pomoMode st \<and>
         pomoSessionStart (fold pomo_tick ts st) = None"
  using assms
proof (induction ts arbitrary: st)
  case Nil
  then show ?case by simp
next
  case (Cons t ts)
  have "pomoSessionStart (pomo_tick t st) = None"
    "focusReports (pomo_tick t st) = focusReports st" "pomoMode (pomo_tick t st) = pomoMode st"
    using Cons.prems by (simp_all add: pomo_tick_disarmed)
  with Cons.IH [of "pomo_tick t st"] show ?case by simp
qed

lemma pomo_tick_complete:
  assumes "pomoRunning st" "pomoInterval st" "pomoSessionStart st = Some start" "start \<noteq> 0"
    "pomoSessionDuration st \<le> (now - start) div 1000"
  shows "pomo_tick now st =
    st\<lparr>pomoMode := (if pomoMode st = Focus then Break else Focus),
       pomoRemaining := (if pomoMode st = Focus then 5 else 25) * 60,
       pomoSessionStart := None,
       pomoSessionDuration := (if pomoMode st = Focus then 5 else 25) * 60,
       closureRemaining := (if pomoMode st = Focus then 5 else 25) * 60,
       pomoInterval := True,
       focusReports := (if pomoMode st = Focus then focusReports st @ [25] else focusReports st)\<rparr>"
  using assms
  by (cases "pomoMode st")
    (simp_all add: pomo_tick_def calculatePomoRemaining_def pomo_commit_def flip_mode_def
      pomo_running_effect_def pomo_mode_effect_def js_truthy_def Let_def max_def)

lemma pomo_tick_running:
  assumes "pomoRunning st" "pomoInterval st" "pomoSessionStart st = Some start" "start \<noteq> 0"
    "(now - start) div 1000 < pomoSessionDuration st"
  shows "pomo_tick now st = st\<lparr>pomoRemaining := pomoSessionDuration st - (now - start) div 1000\<rparr>"
  using assms
  by (simp add: pomo_tick_def calculatePomoRemaining_def pomo_commit_def Let_def max_def)

text \<open>
  C5: when the remaining time of a running Pomodoro interval reaches zero on a tick, the
  mode flips. If the interval that ends is \<open>focus\<close>, the callback is called once with 25,
  the configured focus minutes, whatever the clock says; if it is \<open>break\<close>, nothing is
  reported. The next session is set up with the full duration of the other mode (300 or
  1500 seconds) and the session start is \<open>null\<close>. Ticks after that report nothing more,
  and a tick before the remaining time reaches zero reports nothing and keeps the mode.
\<close>

theorem pomodoro_completion:
  assumes "pomoRunning st" "pomoInterval st" "pomoSessionStart st = Some start" "start \<noteq> 0"
    and "pomoSessionDuration st \<le> (now - start) div 1000"
  shows "(pomoMode st = Focus \<longrightarrow>
            pomoMode (pomo_tick now st) = Break \<and>
            focusReports (pomo_tick now st) = focusReports st @ [25] \<and>
            pomoRemaining (pomo_tick now st) = 5 * 60 \<and>
            pomoSessionDuration (pomo_tick now st) = 5 * 60) \<and>
         (pomoMode st = Break \<longrightarrow>
            pomoMode (pomo_tick now st) = Focus \<and>
            focusReports (pomo_tick now st) = focusReports st \<and>
            pomoRemaining (pomo_tick now st) = 25 * 60 \<and>
            pomoSessionDuration (pomo_tick now st) = 25 * 60) \<and>
         pomoSessionStart (pomo_tick now st) = None \<and>
         pomoRunning (pomo_tick now st) \<and>
         focusReports (fold pomo_tick later (pomo_tick now st)) = focusReports (pomo_tick now st) \<and>
         ((earlier - start) div 1000 < pomoSessionDuration st \<longrightarrow>
            focusReports (pomo_tick earlier st) = focusReports st \<and>
            pomoMode (pomo_tick earlier st) = pomoMode st)"
proof -
  note c = pomo_tick_complete [OF assms]
  have e: "focusReports (pomo_tick earlier st) = focusReports st \<and>
      pomoMode (pomo_tick earlier st) = pomoMode st"
    if "(earlier - start) div 1000 < pomoSessionDuration st"
    using pomo_tick_running [OF assms(1-4) that] by simp
  have "pomoSessionStart (pomo_tick now st) = None"
    by (simp add: c)
  then have "focusReports (fold pomo_tick later (pomo_tick now st)) = focusReports (pomo_tick now st)"
    using pomo_ticks_disarmed by blast
  then show ?thesis
    using assms(1) e by (simp add: c)
qed

theorem pomodoro_completion_witness:
  "pomoMode (pomo_run [(1000000, PomoSetRunning True), (2499900, PomoTick)] pomo_init) = Focus \<and>
   pomoRemaining (pomo_run [(1000000, PomoSetRunning True), (2499900, PomoTick)] pomo_init) = 1 \<and>
   pomoMode (pomo_tick 2500000
     (pomo_run [(1000000, PomoSetRunning True), (2499900, PomoTick)] pomo_init)) = Break \<and>
   focusReports (pomo_tick 2500000
     (pomo_run [(1000000, PomoSetRunning True), (2499900, PomoTick)] pomo_init)) = [25] \<and>
   pomoRemaining (pomo_tick 2500000
     (pomo_run [(1000000, PomoSetRunning True), (2499900, PomoTick)] pomo_init)) = 300 \<and>
   focusReports (fold pomo_tick [2500100, 2800000, 2800100] (pomo_tick 2500000
     (pomo_run [(1000000, PomoSetRunning True), (2499900, PomoTick)] pomo_init))) = [25]"
proof -
  define st where "st = pomo_run [(1000000, PomoSetRunning True), (2499900, PomoTick)] pomo_init"
  have st: "st = \<lparr>pomoMode = Focus, pomoRunning = True, pomoRemaining = 1,
          pomoSessionStart = Some 1000000, pomoSessionDuration = 1500,
          closureRemaining = 1500, pomoInterval = True, focusReports = []\<rparr>"
    by (simp add: st_def pomo_run_def pomo_init_def setPomoRunning_def pomo_commit_def
        pomo_running_effect_def js_truthy_def pomo_tick_def calculatePomoRemaining_def Let_def)
  have h: "pomoRunning st" "pomoInterval st" "pomoSessionStart st = Some 1000000"
    "(1000000::int) \<noteq> 0" "pomoSessionDuration st \<le> (2500000 - 1000000) div 1000"
    by (simp_all add: st)
  have "pomoMode st = Focus" "pomoRemaining st = 1" "focusReports st = []" by (simp_all add: st)
  then show ?thesis
    using pomodoro_completion [OF h, of "[2500100, 2800000, 2800100]"]
    unfolding st_def [symmetric] by simp
qed

subsection \<open>Neither timer shows a negative time\<close>

lemma pomo_commit_inv:
  assumes "0 \<le> pomoRemaining st" "0 \<le> closureRemaining st"
  shows "0 \<le> pomoRemaining (pomo_commit now old st) \<and> 0 \<le> closureRemaining (pomo_commit now old st)"
  using assms
  by (simp add: pomo_commit_def pomo_running_effect_def pomo_mode_effect_def Let_def)

lemma calculatePomoRemaining_inv:
  assumes "0 \<le> pomoRemaining st" "0 \<le> closureRemaining st"
  shows "0 \<le> fst (calculatePomoRemaining now st) \<and>
         0 \<le> closureRemaining (snd (calculatePomoRemaining now st))"
  using assms
  by (auto simp: calculatePomoRemaining_def flip_mode_def Let_def split: option.splits)

lemma pomo_step_inv:
  assumes "0 \<le> pomoRemaining st \<and> 0 \<le> closureRemaining st"
  shows "0 \<le> pomoRemaining (pomo_step e st) \<and> 0 \<le> closureRemaining (pomo_step e st)"
proof -
  obtain now ev where e: "e = (now, ev)" by (cases e)
  show ?thesis
  proof (cases ev)
    case (PomoSetRunning b)
    then show ?thesis
      using assms by (simp add: e setPomoRunning_def pomo_commit_inv)
  next
    case PomoTick
    obtain r st1 where c: "calculatePomoRemaining now st = (r, st1)"
      by (cases "calculatePomoRemaining now st")
    have "0 \<le> r" "0 \<le> closureRemaining st1"
      using calculatePomoRemaining_inv [of st now] assms c by simp_all
    then show ?thesis
      using assms by (simp add: e PomoTick pomo_tick_def c pomo_commit_inv)
  next
    case (PomoReset m)
    then show ?thesis
      using assms by (simp add: e resetPomodoro_def pomo_commit_inv)
  qed
qed

lemma pomo_run_inv:
  "0 \<le> pomoRemaining st \<and> 0 \<le> closureRemaining st \<Longrightarrow>
   0 \<le> pomoRemaining (pomo_run evs st) \<and> 0 \<le> closureRemaining (pomo_run evs st)"
  unfolding pomo_run_def
proof (induction evs arbitrary: st)
  case Nil
  then show ?case by simp
next
  case (Cons e evs)
  show ?case
    using Cons.IH [OF pomo_step_inv [OF Cons.prems, of e]] by simp
qed

lemma fs_setRunning_seconds: "fsSeconds (fs_setRunning b now st) = fsSeconds st"
  by (simp add: fs_setRunning_def fs_report_effect_def fs_interval_effect_def Let_def
      split: option.splits)

lemma fs_setSeconds_seconds: "fsSeconds (fs_setSeconds f now st) = f (fsSeconds st)"
  by (simp add: fs_setSeconds_def Let_def fs_setRunning_seconds)

lemma fs_report_effect_seconds: "fsSeconds (fs_report_effect now st) = fsSeconds st"
  by (simp add: fs_report_effect_def Let_def split: option.splits)

lemma fs_step_nonneg:
  assumes "0 \<le> fsSeconds st"
  shows "0 \<le> fsSeconds (fs_step e st)"
proof -
  obtain now ev where e: "e = (now, ev)" by (cases e)
  show ?thesis
    using assms
    by (cases ev)
      (simp_all add: e fs_setRunning_seconds fs_tick_def fs_setSeconds_seconds Let_def
        fs_minus_def fs_plus_def fs_parent_render_def fs_report_effect_seconds)
qed

lemma fs_run_nonneg: "0 \<le> fsSeconds st \<Longrightarrow> 0 \<le> fsSeconds (fs_run evs st)"
  unfolding fs_run_def
proof (induction evs arbitrary: st)
  case Nil
  then show ?case by simp
next
  case (Cons e evs)
  show ?case
    using Cons.IH [OF fs_step_nonneg [OF Cons.prems, of e]] by simp
qed

text \<open>
  C7: after every sequence of events (clicks on start and pause, ticks, resets, the
  adjust buttons, renders of the parent), with any time stamps, the remaining time of
  either timer is at least 0. The sequence is arbitrary, so this holds after each of its
  prefixes: at every state.
\<close>

theorem remaining_never_negative:
  "0 \<le> pomoRemaining (pomo_run evs pomo_init) \<and> 0 \<le> fsSeconds (fs_run evs' fs_init)"
  using pomo_run_inv [of pomo_init evs] fs_run_nonneg [of fs_init evs']
  by (simp add: pomo_init_def fs_init_def)

theorem remaining_never_negative_witness:
  "pomoRemaining (pomo_run [(5000, PomoSetRunning True), (6000, PomoTick),
      (6500, PomoSetRunning False), (7000, PomoSetRunning True), (4000, PomoTick)] pomo_init)
     = 1502 \<and>
   fsSeconds (fs_run [(1000, FsSetRunning True), (1100, FsTick), (1150, FsMinus),
      (700000, FsTick)] fs_init) = 0"
proof -
  have "pomoRemaining (pomo_run [(5000, PomoSetRunning True), (6000, PomoTick),
      (6500, PomoSetRunning False), (7000, PomoSetRunning True), (4000, PomoTick)] pomo_init)
     = 1502"
    by (simp add: pomo_run_def pomo_init_def setPomoRunning_def pomo_commit_def
        pomo_running_effect_def js_truthy_def pomo_tick_def calculatePomoRemaining_def Let_def)
  moreover have "fsSeconds (fs_run [(1000, FsSetRunning True), (1100, FsTick), (1150, FsMinus),
      (700000, FsTick)] fs_init) = 0"
    by (simp add: fs_run_def fs_init_def fs_setRunning_def fs_report_effect_def
        fs_interval_effect_def fs_tick_def fs_setSeconds_def fs_minus_def Let_def)
  ultimately show ?thesis
    using remaining_never_negative [of "[(5000, PomoSetRunning True), (6000, PomoTick),
      (6500, PomoSetRunning False), (7000, PomoSetRunning True), (4000, PomoTick)]"
      "[(1000, FsSetRunning True), (1100, FsTick), (1150, FsMinus), (700000, FsTick)]"]
    by simp
qed

subsection \<open>Adjusting the countdown\<close>

lemma js_round_minutes: "js_round (of_int d / (1000 * 60)) = (d + 30000) div 60000"
proof -
  have "(of_int d / (1000 * 60) + 1 / 2 :: rat) = of_int (d + 30000) / of_int 60000"
    by (simp add: field_simps)
  then show ?thesis
    unfolding js_round_def by (simp only: floor_divide_of_int_eq)
qed

lemma fs_setSeconds_pos:
  "0 < f (fsSeconds st) \<Longrightarrow> fs_setSeconds f now st = st\<lparr>fsSeconds := f (fsSeconds st)\<rparr>"
  by (simp add: fs_setSeconds_def Let_def)

lemma fs_tick_seconds:
  assumes "fsInterval st" "fsLastTick st = Some l" "l < t" "0 \<le> fsSeconds st"
  shows "fsSeconds (fs_tick t st) = max 0 (fsSeconds st - of_int (t - l) / 1000)"
  using assms
  by (simp add: fs_tick_def Let_def fs_setSeconds_seconds max_def)

lemma fs_tick_off: "\<not> fsInterval st \<Longrightarrow> fs_tick t st = st"
  by (simp add: fs_tick_def)

lemma fs_minus_fields:
  assumes "fsInterval st" "fsLastTick st = Some l"
  shows "fs_minus now st = st\<lparr>fsSeconds := max 0 (fsSeconds st - 60)\<rparr> \<or>
         (fsSeconds (fs_minus now st) = 0 \<and> \<not> fsInterval (fs_minus now st))"
  using assms
  by (simp add: fs_minus_def fs_setSeconds_def Let_def fs_setRunning_def fs_setRunning_seconds
      fs_report_effect_def fs_interval_effect_def split: option.splits)

text \<open>
  C9: the adjust buttons change the remaining seconds by 60 (the subtraction stops at 0)
  and nothing else: running, the last tick and the session start stay as they are. The
  next tick shows the adjusted value minus only the time since the last tick, and while
  the countdown is not running a tick changes nothing.
\<close>

theorem adjust_keeps_basis:
  assumes "0 \<le> fsSeconds st"
  shows "fs_plus now st = st\<lparr>fsSeconds := fsSeconds st + 60\<rparr> \<and>
         fsSeconds (fs_minus now st) = max 0 (fsSeconds st - 60) \<and>
         (60 < fsSeconds st \<longrightarrow> fs_minus now st = st\<lparr>fsSeconds := fsSeconds st - 60\<rparr>) \<and>
         (\<not> fsInterval st \<longrightarrow> fs_tick t (fs_plus now st) = fs_plus now st) \<and>
         (fsInterval st \<and> fsLastTick st = Some l \<and> l < t \<longrightarrow>
            fsSeconds (fs_tick t (fs_plus now st)) =
              max 0 (fsSeconds st + 60 - of_int (t - l) / 1000) \<and>
            fsSeconds (fs_tick t (fs_minus now st)) =
              max 0 (max 0 (fsSeconds st - 60) - of_int (t - l) / 1000))"
proof -
  have plus: "fs_plus now st = st\<lparr>fsSeconds := fsSeconds st + 60\<rparr>"
    using assms by (simp add: fs_plus_def fs_setSeconds_pos)
  have minus: "fsSeconds (fs_minus now st) = max 0 (fsSeconds st - 60)"
    by (simp add: fs_minus_def fs_setSeconds_seconds)
  have minus': "fs_minus now st = st\<lparr>fsSeconds := fsSeconds st - 60\<rparr>" if "60 < fsSeconds st"
    using that by (simp add: fs_minus_def fs_setSeconds_pos)
  have off: "fs_tick t (fs_plus now st) = fs_plus now st" if "\<not> fsInterval st"
    using that by (simp add: plus fs_tick_off)
  have tp: "fsSeconds (fs_tick t (fs_plus now st)) =
      max 0 (fsSeconds st + 60 - of_int (t - l) / 1000)"
    if "fsInterval st" "fsLastTick st = Some l" "l < t"
    using that assms fs_tick_seconds [of "st\<lparr>fsSeconds := fsSeconds st + 60\<rparr>" l t]
    by (simp add: plus)
  have tm: "fsSeconds (fs_tick t (fs_minus now st)) =
      max 0 (max 0 (fsSeconds st - 60) - of_int (t - l) / 1000)"
    if h: "fsInterval st" "fsLastTick st = Some l" "l < t"
  proof -
    from fs_minus_fields [OF h(1,2), of now]
    show ?thesis
    proof
      assume e: "fs_minus now st = st\<lparr>fsSeconds := max 0 (fsSeconds st - 60)\<rparr>"
      show ?thesis
        using h fs_tick_seconds [of "st\<lparr>fsSeconds := max 0 (fsSeconds st - 60)\<rparr>" l t]
        by (simp add: e)
    next
      assume z: "fsSeconds (fs_minus now st) = 0 \<and> \<not> fsInterval (fs_minus now st)"
      then have "fsSeconds (fs_tick t (fs_minus now st)) = 0"
        by (simp add: fs_tick_off)
      moreover have "max 0 (fsSeconds st - 60) = 0"
        using z minus by simp
      ultimately show ?thesis using h(3) by (simp add: max_def)
    qed
  qed
  show ?thesis
    using plus minus minus' off tp tm by blast
qed

theorem adjust_keeps_basis_witness:
  "fsSeconds (fs_run [(1000000, FsSetRunning True), (1005000, FsTick), (1010000, FsTick)]
     fs_init) = 590 \<and>
   fsLastTick (fs_run [(1000000, FsSetRunning True), (1005000, FsTick), (1010000, FsTick)]
     fs_init) = Some 1010000 \<and>
   fsSeconds (fs_plus 1010050 (fs_run [(1000000, FsSetRunning True), (1005000, FsTick),
     (1010000, FsTick)] fs_init)) = 650 \<and>
   fsSeconds (fs_tick 1010100 (fs_plus 1010050 (fs_run [(1000000, FsSetRunning True),
     (1005000, FsTick), (1010000, FsTick)] fs_init))) = 6499 / 10 \<and>
   fsSeconds (fs_tick 1010100 (fs_minus 1010050 (fs_run [(1000000, FsSetRunning True),
     (1005000, FsTick), (1010000, FsTick)] fs_init))) = 5299 / 10"
proof -
  define st where
    "st = fs_run [(1000000, FsSetRunning True), (1005000, FsTick), (1010000, FsTick)] fs_init"
  have st: "st = \<lparr>fsSeconds = 590, fsRunning = True, fsLastTick = Some 1010000,
      fsSessionStartTime = Some 1000000, fsInterval = True, fsCallback = True,
      fsReports = []\<rparr>"
    by (simp add: st_def fs_run_def fs_init_def fs_setRunning_def fs_report_effect_def
        fs_interval_effect_def fs_tick_def fs_setSeconds_def Let_def)
  have h: "0 \<le> fsSeconds st" "fsInterval st" "fsLastTick st = Some 1010000"
    "fsSeconds st = 590"
    by (simp_all add: st)
  note a = adjust_keeps_basis [OF h(1), of 1010050 1010100 1010000]
  have p: "fsSeconds (fs_plus 1010050 st) = 650"
    using a h(4) by simp
  have "fsInterval st \<and> fsLastTick st = Some 1010000 \<and> (1010000::int) < 1010100"
    using h by simp
  with a have "fsSeconds (fs_tick 1010100 (fs_plus 1010050 st)) =
      max 0 (fsSeconds st + 60 - of_int (1010100 - 1010000) / 1000)"
    and "fsSeconds (fs_tick 1010100 (fs_minus 1010050 st)) =
      max 0 (max 0 (fsSeconds st - 60) - of_int (1010100 - 1010000) / 1000)"
    by blast+
  then have "fsSeconds (fs_tick 1010100 (fs_plus 1010050 st)) = 6499 / 10"
    and "fsSeconds (fs_tick 1010100 (fs_minus 1010050 st)) = 5299 / 10"
    by (simp_all add: h(4))
  then show ?thesis
    using h p unfolding st_def [symmetric] by simp
qed

subsection \<open>Stopping the countdown and reporting\<close>


lemma fs_parent_render_rebases:
  "fsRunning st \<Longrightarrow> fsSessionStartTime (fs_parent_render now st) = Some now \<and>
     fsLastTick (fs_parent_render now st) = Some now"
  by (simp add: fs_parent_render_def fs_report_effect_def)

text \<open>
  C8: the countdown is started at 1000000 ms and paused at 1120500 ms, 120.5 seconds
  later, which rounds to 2 minutes. Without a render of the parent in between, 2 is
  reported. With one render of the parent at 1120000 ms the elapsed time is measured from
  that render, rounds to 0 and nothing is reported: the report is not the time since
  running started.
\<close>

theorem fs_report_lost_after_parent_render:
  "fsReports (fs_run [(1000000, FsSetRunning True), (1120000, FsParentRender),
      (1120500, FsSetRunning False)] fs_init) = [] \<and>
   fsReports (fs_run [(1000000, FsSetRunning True), (1120500, FsSetRunning False)] fs_init)
     = [2] \<and>
   js_round (of_int (1120500 - 1000000) / (1000 * 60)) = 2"
proof -
  have r: "js_round (241 / 120) = 2" "js_round (1 / 120) = 0"
    by (simp_all add: js_round_def floor_eq_iff)
  show ?thesis
    by (simp add: fs_run_def fs_init_def fs_setRunning_def fs_report_effect_def
        fs_interval_effect_def fs_parent_render_def r Let_def)
qed

theorem fs_report_lost_after_parent_render_witness:
  "fsReports (fs_run [(1000000, FsSetRunning True), (1120000, FsParentRender),
      (1120500, FsSetRunning False)] fs_init) \<noteq>
   fsReports (fs_run [(1000000, FsSetRunning True), (1120500, FsSetRunning False)] fs_init)"
  using fs_report_lost_after_parent_render by simp

subsection \<open>Pausing and resuming\<close>









































text \<open>
  A render of the parent between two ticks moves the reference of the next tick: the
  750 ms before the render are not taken off.
\<close>

lemma fs_parent_render_moves_tick_basis:
  "fsSeconds (fs_run [(1000000, FsSetRunning True), (1000750, FsParentRender),
     (1001500, FsTick)] fs_init) = 2397 / 4 \<and>
   fsSeconds (fs_run [(1000000, FsSetRunning True), (1001500, FsTick)] fs_init) = 1197 / 2"
  by (simp add: fs_run_def fs_init_def fs_setRunning_def fs_report_effect_def
      fs_interval_effect_def fs_tick_def fs_setSeconds_def fs_parent_render_def Let_def)

end
